theory Spec2Isabelle
  imports Main "HOL-Library.AList"
begin

section \<open>Python strings and constants\<close>

text \<open>
  A Python \<open>str\<close> is modelled as a \<open>string\<close>, one \<open>char\<close> per code point; the model covers
  the code points below 256. \<open>py_isspace\<close> lists the code points below 256 that
  \<open>str.isspace\<close> accepts, which are the ones \<open>str.strip\<close> and \<open>str.rstrip\<close> remove.
\<close>

definition py_isspace :: "char \<Rightarrow> bool" where
  "py_isspace c = (c \<in> set [CHR 0x09, CHR 0x0A, CHR 0x0B, CHR 0x0C, CHR 0x0D, CHR 0x1C,
     CHR 0x1D, CHR 0x1E, CHR 0x1F, CHR 0x20, CHR 0x85, CHR 0xA0])"

definition rstrip :: "string \<Rightarrow> string" where
  "rstrip s = rev (dropWhile py_isspace (rev s))"

definition strip :: "string \<Rightarrow> string" where
  "strip s = rstrip (dropWhile py_isspace s)"

definition startswith :: "string \<Rightarrow> string \<Rightarrow> bool" where
  "startswith s p = (take (length p) s = p)"

text \<open>\<open>sep.join(xs)\<close>.\<close>

fun str_join :: "string \<Rightarrow> string list \<Rightarrow> string" where
  "str_join sep [] = []"
| "str_join sep [x] = x"
| "str_join sep (x # y # ys) = x @ sep @ str_join sep (y # ys)"

text \<open>\<open>str(n)\<close> for an integer: decimal digits, with a minus sign when negative.\<close>

fun str_nat :: "nat \<Rightarrow> string" where
  "str_nat n = (if n < 10 then [''0123456789'' ! n]
                else str_nat (n div 10) @ [''0123456789'' ! (n mod 10)])"

declare str_nat.simps [simp del]

definition str_int :: "int \<Rightarrow> string" where
  "str_int i = (if i < 0 then ''-'' @ str_nat (nat (- i)) else str_nat (nat i))"

text \<open>
  The value of an \<open>ast.Constant\<close>. A float, complex, bytes or Ellipsis constant is carried
  as \<open>COther\<close> with the text that \<open>str\<close> gives for it.
\<close>

datatype pyconst = CStr string | CInt int | CBool bool | CNone | COther string

fun py_str :: "pyconst \<Rightarrow> string" where
  "py_str (CStr s) = s"
| "py_str (CInt i) = str_int i"
| "py_str (CBool b) = (if b then ''True'' else ''False'')"
| "py_str CNone = ''None''"
| "py_str (COther s) = s"

section \<open>reference.py\<close>

text \<open>
  The frozen dataclass \<open>Reference\<close>: seven optional fields. The field \<open>notes\<close> is
  written \<open>notes'\<close>, since \<open>notes\<close> is a keyword of Isabelle.
\<close>

record Reference =
  title :: "string option"
  authors :: "string list option"
  organization :: "string option"
  date :: "string option"
  url :: "string option"
  description :: "string option"
  notes' :: "string option"

text \<open>
  The \<open>__eq__\<close> that \<open>@dataclass\<close> generates for two instances of the class: the
  tuples of the fields, in declaration order, are compared.
\<close>

definition Reference_eq :: "Reference \<Rightarrow> Reference \<Rightarrow> bool" where
  "Reference_eq a b =
     ((title a, authors a, organization a, date a, url a, description a, notes' a) =
      (title b, authors b, organization b, date b, url b, description b, notes' b))"

definition join :: "string list \<Rightarrow> string" where
  "join lines = str_join [CHR 0x0A] lines"

section \<open>The syntax tree\<close>

text \<open>
  The part of Python's \<open>ast\<close> that the converter inspects. A keyword argument is the pair
  of \<open>kw.arg\<close> (\<open>None\<close> for \<open>**kwargs\<close>) and \<open>kw.value\<close>. Every statement carries the
  result of \<open>ast.get_source_segment(self.source, stmt)\<close> as its first field.
\<close>

datatype expr =
    Constant pyconst
  | Name string
  | Call expr "expr list" "(string option \<times> expr) list"
  | JoinedStr "expr list"
  | FormattedValue expr
  | Tuple "expr list"
  | Compare expr
  | OtherExpr

datatype stmt =
    Expr "string option" expr
  | Assign "string option" "expr list" expr
  | FunctionDef "string option" string "stmt list"
  | AsyncFunctionDef "string option"
  | ClassDef "string option"
  | If "string option" expr
  | OtherStmt "string option"

fun get_source_segment :: "stmt \<Rightarrow> string option" where
  "get_source_segment (Expr seg _) = seg"
| "get_source_segment (Assign seg _ _) = seg"
| "get_source_segment (FunctionDef seg _ _) = seg"
| "get_source_segment (AsyncFunctionDef seg) = seg"
| "get_source_segment (ClassDef seg) = seg"
| "get_source_segment (If seg _) = seg"
| "get_source_segment (OtherStmt seg) = seg"

section \<open>convert_to_ipynb.py\<close>

definition CONTENT_FUNCTIONS :: "string list" where
  "CONTENT_FUNCTIONS = [''text'', ''link'', ''image'', ''system_text'',
     ''named_link'', ''article_link'', ''blog_link'', ''x_link'', ''youtube_link'']"

datatype cell_type = markdown | code

text \<open>
  A notebook cell. The other members of the dictionary are constants (\<open>metadata\<close> is
  empty, and a code cell has no outputs and no execution count).
\<close>

record cell =
  cell_type :: cell_type
  source :: "string list"

text \<open>
  The fields of a \<open>LectureConverter\<close>. \<open>functions\<close> (written \<open>functions'\<close>, the
  plain name being a keyword of Isabelle) is a dictionary whose order of keys matters,
  so it is an association list. Two fields stand for what the code takes from
  outside: \<open>py_repr\<close> is Python's \<open>repr\<close> on strings, and \<open>data_uri path\<close> is the data URI
  built from the file at \<open>path\<close> beside the input file, when that file exists and is read
  without an exception.
\<close>

record converter =
  tree :: "stmt list"
  functions' :: "(string \<times> stmt list) list"
  cells :: "cell list"
  current_markdown :: "string list"
  current_code :: "string list"
  references :: "string \<rightharpoonup> (string \<times> string)"
  py_repr :: "string \<Rightarrow> string"
  data_uri :: "string \<Rightarrow> string option"

subsection \<open>Loading the references\<close>

fun get_arg_value_simple ::
  "expr list \<Rightarrow> (string option \<times> expr) list \<Rightarrow> nat \<Rightarrow> string option \<Rightarrow> string" where
  "get_arg_value_simple args keywords arg_index kwarg_name =
     (case (if arg_index < length args then Some (args ! arg_index) else None) of
        Some (Constant c) \<Rightarrow> py_str c
      | _ \<Rightarrow>
         (case kwarg_name of
            None \<Rightarrow> []
          | Some k \<Rightarrow>
             if k = [] then []
             else (case List.find (\<lambda>kw. fst kw = Some k \<and> (case snd kw of Constant _ \<Rightarrow> True | _ \<Rightarrow> False))
                          keywords of
                     Some (_, Constant c) \<Rightarrow> py_str c
                   | _ \<Rightarrow> [])))"

text \<open>The names among the targets of an assignment, in order.\<close>

fun target_names :: "expr list \<Rightarrow> string list" where
  "target_names [] = []"
| "target_names (Name n # ts) = n # target_names ts"
| "target_names (_ # ts) = target_names ts"

text \<open>
  One round of the loop of \<open>_scan_for_refs\<close> (\<open>scan_for_refs\<close> here): the table after
  the statement.
\<close>

fun scan_stmt :: "(string \<rightharpoonup> string \<times> string) \<Rightarrow> stmt \<Rightarrow> (string \<rightharpoonup> string \<times> string)" where
  "scan_stmt refs (Assign seg targets (Call (Name f) args keywords)) =
     (let (ref_title, ref_url) =
            (if f = ''Reference'' then
               (get_arg_value_simple args keywords 0 (Some ''title''),
                get_arg_value_simple args keywords 1 (Some ''url''))
             else if f = ''arxiv_reference'' then
               ([], get_arg_value_simple args keywords 0 None)
             else ([], []))
      in if ref_url \<noteq> [] then
           foldl (\<lambda>r name. r(name \<mapsto> (if ref_title \<noteq> [] then ref_title else name, ref_url)))
                 refs (target_names targets)
         else refs)"
| "scan_stmt refs _ = refs"

definition scan_for_refs :: "stmt list \<Rightarrow> (string \<rightharpoonup> string \<times> string)" where
  "scan_for_refs body = foldl scan_stmt Map.empty body"

text \<open>
  \<open>refs_py\<close> is the tree of \<open>references.py\<close>: \<open>None\<close> when the file does not exist or
  when reading or parsing it raises. \<open>refs.update(d)\<close> is \<open>refs ++ d\<close>.
\<close>

definition load_references :: "stmt list option \<Rightarrow> stmt list \<Rightarrow> (string \<rightharpoonup> string \<times> string)" where
  "load_references refs_py tr =
     (let refs = Map.empty;
          refs = (case refs_py of None \<Rightarrow> refs | Some t \<Rightarrow> refs ++ scan_for_refs t)
      in refs ++ scan_for_refs tr)"

subsection \<open>Flushing the buffers\<close>

definition flush_markdown :: "('a converter_scheme) \<Rightarrow> ('a converter_scheme)" where
  "flush_markdown self =
     (if current_markdown self \<noteq> [] then
        self\<lparr>cells := cells self @
                [\<lparr>cell_type = markdown,
                  source = [str_join [CHR 0x0A, CHR 0x0A] (current_markdown self) @ [CHR 0x0A]]\<rparr>],
             current_markdown := []\<rparr>
      else self)"

definition flush_code :: "('a converter_scheme) \<Rightarrow> ('a converter_scheme)" where
  "flush_code self =
     (if current_code self \<noteq> [] then
        self\<lparr>cells := cells self @
                [\<lparr>cell_type = code,
                  source = [rstrip (str_join [] (current_code self)) @ [CHR 0x0A]]\<rparr>],
             current_code := []\<rparr>
      else self)"

subsection \<open>Resolving an argument\<close>

text \<open>
  What \<open>get_arg_value\<close> returns: a string, or the (title, url) tuple stored in the
  reference table.
\<close>

datatype argval = VStr string | VRef string string

text \<open>
  The argument that \<open>get_arg_value\<close> looks at: the positional one when there are enough
  positional arguments, otherwise the value of the first keyword named \<open>kwarg_name\<close>.
\<close>

definition select_arg ::
  "expr list \<Rightarrow> (string option \<times> expr) list \<Rightarrow> nat \<Rightarrow> string option \<Rightarrow> expr option" where
  "select_arg args keywords arg_index kwarg_name =
     (if arg_index < length args then Some (args ! arg_index)
      else (case kwarg_name of
              None \<Rightarrow> None
            | Some k \<Rightarrow>
               if k = [] then None
               else map_option snd (List.find (\<lambda>kw. fst kw = Some k) keywords)))"

text \<open>
  The loop over \<open>reversed(context_body)\<close>, given the reversed body: \<open>Some\<close> of the value
  returned from inside the loop, \<open>None\<close> when the loop ends without returning. The test
  \<open>stmt == node\<close> compares a statement of the body with the call expression; syntax
  tree nodes are compared by identity and a body holds statements only, so the test is
  never true and has no branch here.
\<close>

fun scan_context :: "string \<Rightarrow> stmt list \<Rightarrow> string option" where
  "scan_context n [] = None"
| "scan_context n (Assign seg [Name t] v # rest) =
     (if t = n then
        (case v of
           Constant c \<Rightarrow> Some (py_str c)
         | Call (Name f) _ _ \<Rightarrow> if f = ''run_policy_gradient'' then Some n else scan_context n rest
         | _ \<Rightarrow> scan_context n rest)
      else scan_context n rest)"
| "scan_context n (_ # rest) = scan_context n rest"

text \<open>The loop over the parts of an f-string, with \<open>res\<close> as the accumulator.\<close>

fun joined_str :: "string \<Rightarrow> expr list \<Rightarrow> string" where
  "joined_str res [] = res"
| "joined_str res (Constant c # parts) = joined_str (res @ py_str c) parts"
| "joined_str res (FormattedValue (Name x) # parts) = joined_str (res @ ''{'' @ x @ ''}'') parts"
| "joined_str res (FormattedValue _ # parts) = joined_str (res @ ''{...}'') parts"
| "joined_str res (_ # parts) = joined_str res parts"

text \<open>
  \<open>node.args\<close> and \<open>node.keywords\<close> are passed in place of \<open>node\<close>. \<open>context_body\<close> is a
  list: the code treats \<open>None\<close> and the empty list alike.
\<close>

definition get_arg_value ::
  "('a converter_scheme) \<Rightarrow> expr list \<Rightarrow> (string option \<times> expr) list \<Rightarrow> nat \<Rightarrow> string option
     \<Rightarrow> stmt list \<Rightarrow> argval" where
  "get_arg_value self args keywords arg_index kwarg_name context_body =
     (case select_arg args keywords arg_index kwarg_name of
        None \<Rightarrow> VStr []
      | Some (Constant c) \<Rightarrow> VStr (py_str c)
      | Some (Name n) \<Rightarrow>
         (case references self n of
            Some (t, u) \<Rightarrow> VRef t u
          | None \<Rightarrow>
             (case scan_context n (rev context_body) of
                Some v \<Rightarrow> VStr v
              | None \<Rightarrow> VStr n))
      | Some (JoinedStr parts) \<Rightarrow> VStr (joined_str [] parts)
      | Some _ \<Rightarrow> VStr [])"

subsection \<open>Formatting a content call\<close>

text \<open>\<open>str\<close> of a value as an f-string formats it: a tuple of two strings prints their \<open>repr\<close>.\<close>

fun fmt :: "('a converter_scheme) \<Rightarrow> argval \<Rightarrow> string" where
  "fmt self (VStr s) = s"
| "fmt self (VRef t u) = ''('' @ py_repr self t @ '', '' @ py_repr self u @ '')''"

text \<open>Truth value of a string or a tuple of two.\<close>

fun truthy :: "argval \<Rightarrow> bool" where
  "truthy (VStr s) = (s \<noteq> [])"
| "truthy (VRef _ _) = True"

text \<open>An image tag when a width is given, Markdown image syntax otherwise.\<close>

definition image_markup :: "('a converter_scheme) \<Rightarrow> string \<Rightarrow> argval \<Rightarrow> string" where
  \<open>image_markup self src width =
     (if truthy width then ''<img src="'' @ src @ ''" width="'' @ fmt self width @ ''" />''
      else ''![image]('' @ src @ '')'')\<close>

text \<open>
  \<open>func_name\<close>, \<open>node.args\<close> and \<open>node.keywords\<close> are passed in place of \<open>node\<close>, whose
  \<open>func\<close> is a \<open>Name\<close> at every call.
\<close>

definition format_content_call ::
  "('a converter_scheme) \<Rightarrow> string \<Rightarrow> expr list \<Rightarrow> (string option \<times> expr) list \<Rightarrow> stmt list
     \<Rightarrow> string" where
  "format_content_call self func_name args keywords context_body =
     (if func_name = ''text'' then
        (case get_arg_value self args keywords 0 None context_body of
           VRef t u \<Rightarrow> t
         | VStr s \<Rightarrow> s)
      else if func_name = ''link'' then
        (let (title, url) =
               (case get_arg_value self args keywords 0 (Some ''title'') context_body of
                  VRef t u \<Rightarrow> (t, VStr u)
                | VStr s \<Rightarrow> (s, get_arg_value self args keywords 1 (Some ''url'') context_body));
             (title, url) =
               (if (case url of VStr u \<Rightarrow> u = [] | VRef _ _ \<Rightarrow> True) then
                  (case references self title of
                     Some (t, u) \<Rightarrow> (t, VStr u)
                   | None \<Rightarrow> (title, url))
                else (title, url))
         in if \<not> truthy url then title
            else ''['' @ title @ '']('' @ fmt self url @ '')'')
      else if func_name = ''image'' then
        (let path = (case get_arg_value self args keywords 0 None context_body of
                       VRef t u \<Rightarrow> u
                     | VStr s \<Rightarrow> s);
             width = get_arg_value self args keywords 1 (Some ''width'') context_body
         in if startswith path ''http://'' \<or> startswith path ''https://'' then
              image_markup self path width
            else (case data_uri self path of
                    Some uri \<Rightarrow> image_markup self uri width
                  | None \<Rightarrow> image_markup self path width))
      else if func_name \<in> set [''article_link'', ''blog_link'', ''x_link'', ''youtube_link''] then
        (let url = (case get_arg_value self args keywords 0 None context_body of
                      VRef t u \<Rightarrow> u
                    | VStr s \<Rightarrow> s)
         in ''[link]('' @ url @ '')'')
      else if func_name = ''named_link'' then
        (let name = get_arg_value self args keywords 0 None context_body;
             url = get_arg_value self args keywords 1 None context_body;
             name = (case name of VRef t u \<Rightarrow> t | VStr s \<Rightarrow> s);
             url = (case url of VRef t u \<Rightarrow> u | VStr s \<Rightarrow> s)
         in ''['' @ name @ '']('' @ url @ '')'')
      else [])"

subsection \<open>Walking a body\<close>

text \<open>The path taken when a statement was not handled: it goes to the code buffer.\<close>

definition append_code :: "('a converter_scheme) \<Rightarrow> stmt \<Rightarrow> ('a converter_scheme)" where
  "append_code self stmt =
     (let self = flush_markdown self
      in (case get_source_segment stmt of
            None \<Rightarrow> self
          | Some stmt_source \<Rightarrow>
             if stmt_source \<noteq> [] then
               self\<lparr>current_code := current_code self @ [stmt_source @ [CHR 0x0A]]\<rparr>
             else self))"

text \<open>
  The loop over the elements of a tuple statement: \<open>Some line_markdown\<close> when every
  element is a content call, \<open>None\<close> when the loop breaks with \<open>all_content\<close> false.
\<close>

fun tuple_line :: "('a converter_scheme) \<Rightarrow> stmt list \<Rightarrow> expr list \<Rightarrow> string list option" where
  "tuple_line self body [] = Some []"
| "tuple_line self body (Call (Name f) args keywords # els) =
     (if f \<in> set CONTENT_FUNCTIONS then
        (let content = format_content_call self f args keywords body
         in map_option (\<lambda>line. (if content \<noteq> [] then [strip content] else []) @ line)
              (tuple_line self body els))
      else None)"
| "tuple_line self body (_ # els) = None"

text \<open>
  One round of the loop of \<open>process_body\<close>. \<open>rec\<close> is the recursive call
  \<open>self.process_body\<close>; a result \<open>None\<close> is a walk that does not return.
\<close>

definition process_stmt ::
  "(('a converter_scheme) \<Rightarrow> stmt list \<Rightarrow> ('a converter_scheme) option) \<Rightarrow> stmt list
     \<Rightarrow> ('a converter_scheme) \<Rightarrow> stmt \<Rightarrow> ('a converter_scheme) option" where
  "process_stmt rec body self stmt =
     (case stmt of
        Expr seg (Call (Name func_name) args keywords) \<Rightarrow>
          if func_name \<in> set CONTENT_FUNCTIONS then
            (let self = flush_code self;
                 content = format_content_call self func_name args keywords body
             in Some (if content \<noteq> [] then
                        self\<lparr>current_markdown := current_markdown self @ [content]\<rparr>
                      else self))
          else (case map_of (functions' self) func_name of
                  Some fbody \<Rightarrow> rec (flush_markdown (flush_code self)) fbody
                | None \<Rightarrow> Some (append_code self stmt))
      | Expr seg (Tuple elts) \<Rightarrow>
          (case tuple_line self body elts of
             Some line_markdown \<Rightarrow>
               (let self = flush_code self
                in Some (self\<lparr>current_markdown := current_markdown self @
                           [str_join '' '' (filter (\<lambda>s. s \<noteq> []) line_markdown)]\<rparr>))
           | None \<Rightarrow> Some (append_code self stmt))
      | _ \<Rightarrow> Some (append_code self stmt))"

text \<open>A \<open>for\<close> loop whose body may fail to return.\<close>

fun for_each :: "('s \<Rightarrow> 'a \<Rightarrow> 's option) \<Rightarrow> 's \<Rightarrow> 'a list \<Rightarrow> 's option" where
  "for_each f s [] = Some s"
| "for_each f s (x # xs) = (case f s x of None \<Rightarrow> None | Some s' \<Rightarrow> for_each f s' xs)"

text \<open>
  \<open>process_body\<close> calls itself on the body of a function of the file that a statement
  calls, so a file whose functions call each other in a cycle makes it recurse until
  Python's recursion limit raises. The first argument bounds the depth of the calls of
  \<open>process_body\<close>; \<open>None\<close> is the walk that exceeds it.
\<close>

primrec process_body ::
  "nat \<Rightarrow> ('a converter_scheme) \<Rightarrow> stmt list \<Rightarrow> ('a converter_scheme) option" where
  "process_body 0 = (\<lambda>self body. None)"
| "process_body (Suc d) = (\<lambda>self body. for_each (process_stmt (process_body d) body) self body)"

subsection \<open>The converter\<close>

text \<open>
  The dictionary comprehension of \<open>__init__\<close>: a later definition of a name replaces the
  body and keeps the position of the key.
\<close>

fun add_function :: "(string \<times> stmt list) list \<Rightarrow> stmt \<Rightarrow> (string \<times> stmt list) list" where
  "add_function fs (FunctionDef seg name body) = AList.update name body fs"
| "add_function fs _ = fs"

definition init ::
  "(string \<Rightarrow> string) \<Rightarrow> (string \<Rightarrow> string option) \<Rightarrow> stmt list option \<Rightarrow> stmt list \<Rightarrow> converter" where
  "init repr uri refs_py tr =
     \<lparr>tree = tr, functions' = foldl add_function [] tr, cells = [], current_markdown = [],
      current_code = [], references = load_references refs_py tr, py_repr = repr,
      data_uri = uri\<rparr>"

text \<open>Whether the first loop of \<open>convert\<close> skips the statement.\<close>

fun skipped :: "stmt \<Rightarrow> bool" where
  "skipped (FunctionDef _ _ _) = True"
| "skipped (AsyncFunctionDef _) = True"
| "skipped (ClassDef _) = True"
| "skipped (Assign _ _ (Call (Name f) _ _)) = (f \<in> set [''Reference'', ''arxiv_reference''])"
| "skipped (If _ (Compare (Name n))) = (n = ''__name__'')"
| "skipped _ = False"

fun top_level_code :: "stmt list \<Rightarrow> string list" where
  "top_level_code [] = []"
| "top_level_code (stmt # rest) =
     (if skipped stmt then top_level_code rest
      else (case get_source_segment stmt of
              None \<Rightarrow> top_level_code rest
            | Some stmt_source \<Rightarrow>
               if stmt_source \<noteq> [] then (stmt_source @ [CHR 0x0A]) # top_level_code rest
               else top_level_code rest))"

definition entry_point :: "('a converter_scheme) \<Rightarrow> string" where
  "entry_point self =
     (if map_of (functions' self) ''main'' \<noteq> None then ''main''
      else (case List.find (\<lambda>name. startswith name ''lecture_'') (map fst (functions' self)) of
              Some name \<Rightarrow> name
            | None \<Rightarrow> ''main''))"

text \<open>
  \<open>convert\<close> up to the notebook's cell array, which is what it returns here; \<open>depth\<close> is
  the bound on the depth of the calls of \<open>process_body\<close>.
\<close>

definition convert :: "nat \<Rightarrow> ('a converter_scheme) \<Rightarrow> cell list option" where
  "convert depth self =
     (let self = self\<lparr>current_code := current_code self @ top_level_code (tree self)\<rparr>;
          walked = (case map_of (functions' self) (entry_point self) of
                      Some body \<Rightarrow> process_body depth self body
                    | None \<Rightarrow> Some self)
      in map_option (\<lambda>self. cells (flush_markdown (flush_code self))) walked)"

subsection \<open>The claims' own notions\<close>

text \<open>
  The text that one part of an f-string stands for: a constant part verbatim, an
  interpolated bare name \<open>x\<close> as \<open>{x}\<close>, any other interpolated expression as \<open>{...}\<close>.
\<close>

fun part_text :: "expr \<Rightarrow> string" where
  "part_text (Constant c) = py_str c"
| "part_text (FormattedValue (Name x)) = ''{'' @ x @ ''}''"
| "part_text (FormattedValue _) = ''{...}''"
| "part_text _ = []"

text \<open>
  How a call of \<open>Reference\<close> or \<open>arxiv_reference\<close> is read, written from the call's
  syntax alone. The text of an argument is \<open>str\<close> of its value when the argument is a
  constant. An argument is looked for at a position and under a keyword: the positional
  argument counts when it is a constant, otherwise the first keyword argument of that
  name whose value is a constant.
\<close>

fun constant_text :: "expr \<Rightarrow> string option" where
  "constant_text (Constant c) = Some (py_str c)"
| "constant_text _ = None"

definition positional_text :: "expr list \<Rightarrow> nat \<Rightarrow> string option" where
  "positional_text args i = (if i < length args then constant_text (args ! i) else None)"

fun keyword_text :: "(string option \<times> expr) list \<Rightarrow> string \<Rightarrow> string option" where
  "keyword_text [] k = None"
| "keyword_text ((a, Constant c) # kws) k =
     (if a = Some k then Some (py_str c) else keyword_text kws k)"
| "keyword_text (_ # kws) k = keyword_text kws k"

definition argument_text ::
  "expr list \<Rightarrow> (string option \<times> expr) list \<Rightarrow> nat \<Rightarrow> string \<Rightarrow> string option" where
  "argument_text args kws i k =
     (case positional_text args i of Some t \<Rightarrow> Some t | None \<Rightarrow> keyword_text kws k)"

text \<open>
  The entry that one statement gives for the name \<open>x\<close>. The statement is an assignment
  with \<open>x\<close> among its targets. For a call of \<open>Reference\<close> the url is the argument at
  position 1 or under the keyword \<open>url\<close>, and the title the argument at position 0 or
  under the keyword \<open>title\<close>; for a call of \<open>arxiv_reference\<close> the url is the argument at
  position 0 and the title is the name. There is an entry when the url has a text that
  is not empty, and the name is the title when the title has no text or an empty one.
\<close>

fun ref_entry :: "stmt \<Rightarrow> string \<Rightarrow> (string \<times> string) option" where
  "ref_entry (Assign seg targets (Call (Name f) args kws)) x =
     (if Name x \<in> set targets then
        (if f = ''Reference'' then
           (case argument_text args kws 1 ''url'' of
              None \<Rightarrow> None
            | Some u \<Rightarrow>
               if u = [] then None
               else Some (case argument_text args kws 0 ''title'' of
                            None \<Rightarrow> x
                          | Some t \<Rightarrow> if t = [] then x else t, u))
         else if f = ''arxiv_reference'' then
           (case positional_text args 0 of
              None \<Rightarrow> None
            | Some u \<Rightarrow> if u = [] then None else Some (x, u))
         else None)
      else None)"
| "ref_entry _ x = None"

text \<open>The entry of the last statement of a tree that gives one for \<open>x\<close>.\<close>

fun last_entry :: "stmt list \<Rightarrow> string \<Rightarrow> (string \<times> string) option" where
  "last_entry [] x = None"
| "last_entry (s # rest) x =
     (case last_entry rest x of Some e \<Rightarrow> Some e | None \<Rightarrow> ref_entry s x)"

text \<open>
  What one statement makes the scan of the enclosing body return for the name \<open>n\<close>, if
  anything: an assignment with the single target \<open>n\<close> returns the string of its constant,
  or the name itself when its value is a call of \<open>run_policy_gradient\<close>.
\<close>

fun decides :: "string \<Rightarrow> stmt \<Rightarrow> string option" where
  "decides n (Assign seg [Name t] (Constant c)) = (if t = n then Some (py_str c) else None)"
| "decides n (Assign seg [Name t] (Call (Name f) _ _)) =
     (if t = n \<and> f = ''run_policy_gradient'' then Some n else None)"
| "decides n _ = None"

text \<open>The decision of the last statement of a body that decides for \<open>n\<close>.\<close>

fun last_decision :: "string \<Rightarrow> stmt list \<Rightarrow> string option" where
  "last_decision n [] = None"
| "last_decision n (s # rest) =
     (case last_decision n rest of Some v \<Rightarrow> Some v | None \<Rightarrow> decides n s)"

text \<open>
  The string of the constant that the last assignment of a constant to the single target
  \<open>n\<close> binds, if there is one.
\<close>

fun constant_bound :: "string \<Rightarrow> stmt \<Rightarrow> string option" where
  "constant_bound n (Assign seg [Name t] (Constant c)) = (if t = n then Some (py_str c) else None)"
| "constant_bound n _ = None"

fun last_constant_bound :: "string \<Rightarrow> stmt list \<Rightarrow> string option" where
  "last_constant_bound n [] = None"
| "last_constant_bound n (s # rest) =
     (case last_constant_bound n rest of Some v \<Rightarrow> Some v | None \<Rightarrow> constant_bound n s)"

text \<open>The top-level function definitions of a tree, in order: name and body.\<close>

fun function_defs :: "stmt list \<Rightarrow> (string \<times> stmt list) list" where
  "function_defs [] = []"
| "function_defs (FunctionDef seg name body # rest) = (name, body) # function_defs rest"
| "function_defs (_ # rest) = function_defs rest"

text \<open>
  The body of the function that a name denotes in the file: a name defined more than
  once denotes its last definition, as it does when Python runs the file.
\<close>

definition function_named :: "stmt list \<Rightarrow> string \<Rightarrow> stmt list option" where
  "function_named tr name = map_of (rev (function_defs tr)) name"

text \<open>
  The entry function: \<open>main\<close> when the file defines it, otherwise the function of the
  first defined name that starts with \<open>lecture_\<close>, otherwise none.
\<close>

definition entry_function :: "stmt list \<Rightarrow> stmt list option" where
  "entry_function tr =
     (case function_named tr ''main'' of
        Some body \<Rightarrow> Some body
      | None \<Rightarrow>
         (case List.find (\<lambda>name. startswith name ''lecture_'') (map fst (function_defs tr)) of
            Some name \<Rightarrow> function_named tr name
          | None \<Rightarrow> None))"

text \<open>
  The kinds of statement that \<open>process_body\<close> tells apart. A content statement is an
  expression statement that is a bare call of a content function; a content tuple is an
  expression statement that is a tuple of such calls only; a local call is an expression
  statement that is a bare call of a function of the file that is not a content function.
\<close>

fun is_content_call :: "expr \<Rightarrow> bool" where
  "is_content_call (Call (Name f) _ _) = (f \<in> set CONTENT_FUNCTIONS)"
| "is_content_call _ = False"

fun is_content_stmt :: "stmt \<Rightarrow> bool" where
  "is_content_stmt (Expr seg e) = is_content_call e"
| "is_content_stmt _ = False"

fun is_content_tuple :: "stmt \<Rightarrow> bool" where
  "is_content_tuple (Expr seg (Tuple elts)) = list_all is_content_call elts"
| "is_content_tuple _ = False"

fun local_call :: "('a converter_scheme) \<Rightarrow> stmt \<Rightarrow> stmt list option" where
  "local_call self (Expr seg (Call (Name f) _ _)) =
     (if f \<in> set CONTENT_FUNCTIONS then None else map_of (functions' self) f)"
| "local_call self _ = None"

text \<open>The formatted result of a content call, and of a content statement.\<close>

fun call_content :: "('a converter_scheme) \<Rightarrow> stmt list \<Rightarrow> expr \<Rightarrow> string" where
  "call_content self body (Call (Name f) args keywords) =
     format_content_call self f args keywords body"
| "call_content self body _ = []"

fun content_of :: "('a converter_scheme) \<Rightarrow> stmt list \<Rightarrow> stmt \<Rightarrow> string" where
  "content_of self body (Expr seg e) = call_content self body e"
| "content_of self body _ = []"

text \<open>The line of a content tuple: the stripped results that are not empty, joined by spaces.\<close>

fun tuple_content :: "('a converter_scheme) \<Rightarrow> stmt list \<Rightarrow> stmt \<Rightarrow> string" where
  "tuple_content self body (Expr seg (Tuple elts)) =
     str_join '' '' (filter (\<lambda>s. s \<noteq> []) (map (\<lambda>e. strip (call_content self body e)) elts))"
| "tuple_content self body _ = []"

text \<open>
  A statement as the grouping into cells sees it: prose or code, with the entries that
  it adds to the buffer of its kind. A content statement adds its result unless it is
  empty, a content tuple adds its line, any other statement adds its source text and a
  newline unless it has no source text.
\<close>

datatype item = Prose "string list" | Code "string list"

definition item_of :: "('a converter_scheme) \<Rightarrow> stmt list \<Rightarrow> stmt \<Rightarrow> item" where
  "item_of self body s =
     (if is_content_stmt s then Prose (filter (\<lambda>c. c \<noteq> []) [content_of self body s])
      else if is_content_tuple s then Prose [tuple_content self body s]
      else (case get_source_segment s of
              None \<Rightarrow> Code []
            | Some src \<Rightarrow> Code (if src \<noteq> [] then [src @ [CHR 0x0A]] else [])))"

fun entries :: "item \<Rightarrow> string list" where
  "entries (Prose es) = es"
| "entries (Code es) = es"

fun is_prose :: "item \<Rightarrow> bool" where
  "is_prose (Prose _) = True"
| "is_prose (Code _) = False"

text \<open>The maximal runs of consecutive items of one kind.\<close>

function runs :: "item list \<Rightarrow> item list list" where
  "runs [] = []"
| "runs (x # xs) =
     (x # takeWhile (\<lambda>y. is_prose y = is_prose x) xs) #
     runs (dropWhile (\<lambda>y. is_prose y = is_prose x) xs)"
  by pat_completeness auto
termination
  by (relation "measure length") (auto simp: length_dropWhile_le less_Suc_eq_le)

text \<open>The cell of a buffer, if the buffer holds anything, and the cells of a run.\<close>

definition markdown_cells :: "string list \<Rightarrow> cell list" where
  "markdown_cells es =
     (if es = [] then []
      else [\<lparr>cell_type = markdown, source = [str_join [CHR 0x0A, CHR 0x0A] es @ [CHR 0x0A]]\<rparr>])"

definition code_cells :: "string list \<Rightarrow> cell list" where
  "code_cells es =
     (if es = [] then []
      else [\<lparr>cell_type = code, source = [rstrip (str_join [] es) @ [CHR 0x0A]]\<rparr>])"

definition cells_of_run :: "item list \<Rightarrow> cell list" where
  "cells_of_run r =
     (case r of
        [] \<Rightarrow> []
      | x # _ \<Rightarrow> (if is_prose x then markdown_cells (concat (map entries r))
                  else code_cells (concat (map entries r))))"

text \<open>What an item does to a converter: the other buffer is flushed, its own one grows.\<close>

fun apply_item :: "('a converter_scheme) \<Rightarrow> item \<Rightarrow> ('a converter_scheme)" where
  "apply_item self (Prose es) =
     (flush_code self)\<lparr>current_markdown := current_markdown self @ es\<rparr>"
| "apply_item self (Code es) =
     (flush_markdown self)\<lparr>current_code := current_code self @ es\<rparr>"

text \<open>The fields of a converter that formatting and classifying read.\<close>

definition env_of ::
  "('a converter_scheme) \<Rightarrow>
     (string \<times> stmt list) list \<times> (string \<rightharpoonup> string \<times> string) \<times> (string \<Rightarrow> string) \<times>
     (string \<Rightarrow> string option)" where
  "env_of self = (functions' self, references self, py_repr self, data_uri self)"

text \<open>The cells that \<open>convert\<close> returns from a state: both buffers are flushed, code first.\<close>

definition emitted :: "('a converter_scheme) \<Rightarrow> cell list" where
  "emitted self = cells (flush_markdown (flush_code self))"

section \<open>Properties\<close>

lemma str_join_append:
  "xs \<noteq> [] \<Longrightarrow> ys \<noteq> [] \<Longrightarrow> str_join sep (xs @ ys) = str_join sep xs @ sep @ str_join sep ys"
  by (induction sep xs rule: str_join.induct) (auto simp: neq_Nil_conv)

text \<open>
  C8. Two \<open>Reference\<close> values are equal exactly when their seven fields are equal, and
  \<open>join\<close> puts one newline between consecutive arguments: nothing for no argument, the
  string itself for one, and the two halves joined by a newline for a split of the
  arguments into two non-empty parts.
\<close>

theorem Reference_eq_join:
  "(Reference_eq a b \<longleftrightarrow>
      title a = title b \<and> authors a = authors b \<and> organization a = organization b \<and>
      date a = date b \<and> url a = url b \<and> description a = description b \<and> notes' a = notes' b)
   \<and> (Reference_eq a b \<longleftrightarrow> a = b)
   \<and> join [] = []
   \<and> join [s] = s
   \<and> (xs \<noteq> [] \<and> ys \<noteq> [] \<longrightarrow> join (xs @ ys) = join xs @ [CHR 0x0A] @ join ys)"
  by (auto simp: Reference_eq_def join_def str_join_append)

theorem Reference_eq_join_witness:
  "Reference_eq \<lparr>title = Some ''T'', authors = None, organization = None, date = None,
                  url = Some ''u'', description = None, notes' = None\<rparr>
                \<lparr>title = Some ''T'', authors = None, organization = None, date = None,
                  url = Some ''u'', description = None, notes' = None\<rparr>
   \<and> [''a''] \<noteq> [] \<and> [''b'', ''c''] \<noteq> []
   \<and> join ([''a''] @ [''b'', ''c'']) = ''a'' @ [CHR 0x0A] @ ''b'' @ [CHR 0x0A] @ ''c''"
  using Reference_eq_join [of
      "\<lparr>title = Some ''T'', authors = None, organization = None, date = None,
        url = Some ''u'', description = None, notes' = None\<rparr>"
      "\<lparr>title = Some ''T'', authors = None, organization = None, date = None,
        url = Some ''u'', description = None, notes' = None\<rparr>"
      "''a''" "[''a'']" "[''b'', ''c'']"]
  by (simp add: join_def)

text \<open>
  C9. A flush with an empty buffer changes nothing. A flush with a non-empty buffer
  appends one cell of its own type after the cells already emitted. After a flush its
  buffer is empty, the other buffer is as before, and the cells emitted before are still
  the first cells.
\<close>

theorem flush_frame:
  "(current_markdown self = [] \<longrightarrow> flush_markdown self = self)
   \<and> (current_markdown self \<noteq> [] \<longrightarrow>
        (\<exists>c. cells (flush_markdown self) = cells self @ [c] \<and> cell_type c = markdown))
   \<and> current_markdown (flush_markdown self) = []
   \<and> current_code (flush_markdown self) = current_code self
   \<and> take (length (cells self)) (cells (flush_markdown self)) = cells self
   \<and> (current_code self = [] \<longrightarrow> flush_code self = self)
   \<and> (current_code self \<noteq> [] \<longrightarrow>
        (\<exists>c. cells (flush_code self) = cells self @ [c] \<and> cell_type c = code))
   \<and> current_code (flush_code self) = []
   \<and> current_markdown (flush_code self) = current_markdown self
   \<and> take (length (cells self)) (cells (flush_code self)) = cells self"
  by (simp add: flush_markdown_def flush_code_def)

theorem flush_frame_witness:
  "current_markdown (\<lparr>tree = [], functions' = [], cells = [], current_markdown = [''a'', ''b''],
       current_code = [], references = Map.empty, py_repr = id, data_uri = Map.empty\<rparr>) \<noteq> []
   \<and> cells (flush_markdown (\<lparr>tree = [], functions' = [], cells = [],
       current_markdown = [''a'', ''b''], current_code = [], references = Map.empty,
       py_repr = id, data_uri = Map.empty\<rparr>))
       = [\<lparr>cell_type = markdown, source = [''a'' @ [CHR 0x0A, CHR 0x0A] @ ''b'' @ [CHR 0x0A]]\<rparr>]
   \<and> cells (flush_code (\<lparr>tree = [], functions' = [], cells = [],
       current_markdown = [''a'', ''b''], current_code = [], references = Map.empty,
       py_repr = id, data_uri = Map.empty\<rparr>)) = []
   \<and> current_code (\<lparr>tree = [], functions' = [], cells = [], current_markdown = [],
       current_code = [''x = 1'' @ [CHR 0x0A]], references = Map.empty, py_repr = id,
       data_uri = Map.empty\<rparr>) \<noteq> []
   \<and> cells (flush_code (\<lparr>tree = [], functions' = [], cells = [], current_markdown = [],
       current_code = [''x = 1'' @ [CHR 0x0A]], references = Map.empty, py_repr = id,
       data_uri = Map.empty\<rparr>))
       = [\<lparr>cell_type = code, source = [''x = 1'' @ [CHR 0x0A]]\<rparr>]
   \<and> cells (flush_markdown (\<lparr>tree = [], functions' = [], cells = [], current_markdown = [],
       current_code = [''x = 1'' @ [CHR 0x0A]], references = Map.empty, py_repr = id,
       data_uri = Map.empty\<rparr>)) = []"
  using flush_frame [of "\<lparr>tree = [], functions' = [], cells = [],
       current_markdown = [''a'', ''b''], current_code = [], references = Map.empty,
       py_repr = id, data_uri = Map.empty\<rparr>"]
    flush_frame [of "\<lparr>tree = [], functions' = [], cells = [], current_markdown = [],
       current_code = [''x = 1'' @ [CHR 0x0A]], references = Map.empty, py_repr = id,
       data_uri = Map.empty\<rparr>"]
  by (simp add: flush_markdown_def flush_code_def rstrip_def py_isspace_def)

text \<open>
  C10. A name that the input file's tree defines has the input file's entry in the table,
  whatever \<open>references.py\<close> holds; a name it does not define has the entry of
  \<open>references.py\<close>; and without a readable \<open>references.py\<close> the table is the input
  file's entries alone.
\<close>

theorem load_references_shadowing:
  "(scan_for_refs tr x = Some v \<longrightarrow> load_references refs_py tr x = Some v)
   \<and> (scan_for_refs tr x = None \<longrightarrow> load_references (Some t) tr x = scan_for_refs t x)
   \<and> load_references None tr = scan_for_refs tr"
  by (auto simp: load_references_def Let_def map_add_def fun_eq_iff split: option.splits)

theorem load_references_shadowing_witness:
  "scan_for_refs
     [Assign None [Name ''r''] (Call (Name ''Reference'') []
        [(Some ''title'', Constant (CStr ''Mine'')), (Some ''url'', Constant (CStr ''http://mine''))])]
     ''r'' = Some (''Mine'', ''http://mine'')
   \<and> load_references
     (Some [Assign None [Name ''r''] (Call (Name ''Reference'') []
        [(Some ''title'', Constant (CStr ''Shared'')), (Some ''url'', Constant (CStr ''http://shared''))]),
        Assign None [Name ''q''] (Call (Name ''arxiv_reference'') [Constant (CStr ''http://q'')] [])])
     [Assign None [Name ''r''] (Call (Name ''Reference'') []
        [(Some ''title'', Constant (CStr ''Mine'')), (Some ''url'', Constant (CStr ''http://mine''))])]
     ''r'' = Some (''Mine'', ''http://mine'')
   \<and> load_references
     (Some [Assign None [Name ''r''] (Call (Name ''Reference'') []
        [(Some ''title'', Constant (CStr ''Shared'')), (Some ''url'', Constant (CStr ''http://shared''))]),
        Assign None [Name ''q''] (Call (Name ''arxiv_reference'') [Constant (CStr ''http://q'')] [])])
     [Assign None [Name ''r''] (Call (Name ''Reference'') []
        [(Some ''title'', Constant (CStr ''Mine'')), (Some ''url'', Constant (CStr ''http://mine''))])]
     ''q'' = Some (''q'', ''http://q'')"
  using load_references_shadowing [of
     "[Assign None [Name ''r''] (Call (Name ''Reference'') []
        [(Some ''title'', Constant (CStr ''Mine'')), (Some ''url'', Constant (CStr ''http://mine''))])]"
     "''r''" "(''Mine'', ''http://mine'')"
     "Some [Assign None [Name ''r''] (Call (Name ''Reference'') []
        [(Some ''title'', Constant (CStr ''Shared'')), (Some ''url'', Constant (CStr ''http://shared''))]),
        Assign None [Name ''q''] (Call (Name ''arxiv_reference'') [Constant (CStr ''http://q'')] [])]"
     "[]"]
  by (simp add: scan_for_refs_def load_references_def map_add_def Let_def)

lemma joined_str_concat: "joined_str res parts = res @ concat (map part_text parts)"
  by (induction res parts rule: joined_str.induct) simp_all

text \<open>
  C6. When the selected argument is an f-string, \<open>get_arg_value\<close> returns the texts of its
  parts concatenated in order.
\<close>

theorem get_arg_value_fstring:
  "select_arg args keywords arg_index kwarg_name = Some (JoinedStr parts) \<longrightarrow>
     get_arg_value self args keywords arg_index kwarg_name context_body =
       VStr (concat (map part_text parts))"
  by (simp add: get_arg_value_def joined_str_concat)

theorem get_arg_value_fstring_witness:
  "select_arg [JoinedStr [Constant (CStr ''loss = ''), FormattedValue (Name ''loss''),
                  Constant (CStr '' after ''), FormattedValue (Call (Name ''len'') [Name ''xs''] [])]]
       [] 0 None
     = Some (JoinedStr [Constant (CStr ''loss = ''), FormattedValue (Name ''loss''),
                  Constant (CStr '' after ''), FormattedValue (Call (Name ''len'') [Name ''xs''] [])])
   \<and> get_arg_value (init id Map.empty None [])
       [JoinedStr [Constant (CStr ''loss = ''), FormattedValue (Name ''loss''),
                  Constant (CStr '' after ''), FormattedValue (Call (Name ''len'') [Name ''xs''] [])]]
       [] 0 None []
     = VStr ''loss = {loss} after {...}''"
  using get_arg_value_fstring [of
       "[JoinedStr [Constant (CStr ''loss = ''), FormattedValue (Name ''loss''),
                  Constant (CStr '' after ''), FormattedValue (Call (Name ''len'') [Name ''xs''] [])]]"
       "[]" 0 None
       "[Constant (CStr ''loss = ''), FormattedValue (Name ''loss''),
                  Constant (CStr '' after ''), FormattedValue (Call (Name ''len'') [Name ''xs''] [])]"
       "init id Map.empty None []" "[]"]
  by (simp add: select_arg_def)

lemma target_names_iff: "x \<in> set (target_names ts) \<longleftrightarrow> Name x \<in> set ts"
  by (induction ts rule: target_names.induct) auto

lemma foldl_bind_names:
  "foldl (\<lambda>r name. r(name \<mapsto> g name)) refs names x =
     (if x \<in> set names then Some (g x) else refs x)"
  by (induction names arbitrary: refs) auto

lemma find_keyword_text:
  "(case List.find (\<lambda>kw. fst kw = Some k \<and> (case snd kw of Constant _ \<Rightarrow> True | _ \<Rightarrow> False)) kws of
      Some (_, Constant c) \<Rightarrow> py_str c
    | _ \<Rightarrow> []) =
   (case keyword_text kws k of Some t \<Rightarrow> t | None \<Rightarrow> [])"
proof (induction kws k rule: keyword_text.induct)
  case (1 k)
  show ?case by simp
next
  case (2 a c kws k)
  then show ?case by simp
qed (simp_all split: expr.splits)

lemma get_arg_value_simple_keyword:
  assumes "k \<noteq> []"
  shows "get_arg_value_simple args kws i (Some k) =
           (case argument_text args kws i k of Some t \<Rightarrow> t | None \<Rightarrow> [])"
proof (cases "positional_text args i")
  case None
  then have "get_arg_value_simple args kws i (Some k) =
      (case keyword_text kws k of Some t \<Rightarrow> t | None \<Rightarrow> [])"
    using assms find_keyword_text [of k kws]
    by (auto simp: positional_text_def split: if_splits expr.splits)
  with None show ?thesis
    by (simp add: argument_text_def)
next
  case (Some t)
  then have "get_arg_value_simple args kws i (Some k) = t"
    by (auto simp: positional_text_def split: if_splits expr.splits)
  with Some show ?thesis
    by (simp add: argument_text_def)
qed

lemma get_arg_value_simple_positional:
  "get_arg_value_simple args kws i None =
     (case positional_text args i of Some t \<Rightarrow> t | None \<Rightarrow> [])"
  by (auto simp: positional_text_def split: expr.splits)

lemma scan_stmt_apply:
  "scan_stmt refs s x = (case ref_entry s x of Some e \<Rightarrow> Some e | None \<Rightarrow> refs x)"
proof (cases s)
  case (Assign seg targets v)
  show ?thesis
  proof (cases v)
    case (Call fn args kws)
    show ?thesis
    proof (cases fn)
      case (Name f)
      have "scan_stmt refs (Assign seg targets (Call (Name f) args kws)) x =
              (case ref_entry (Assign seg targets (Call (Name f) args kws)) x of
                 Some e \<Rightarrow> Some e | None \<Rightarrow> refs x)"
        by (simp add: foldl_bind_names target_names_iff Let_def get_arg_value_simple_keyword
            get_arg_value_simple_positional split: option.splits
            del: get_arg_value_simple.simps)
      then show ?thesis using Assign Call Name by simp
    qed (use Assign Call in simp_all)
  qed (use Assign in simp_all)
qed simp_all

lemma foldl_scan_stmt:
  "foldl scan_stmt refs body x =
     (case last_entry body x of Some e \<Rightarrow> Some e | None \<Rightarrow> refs x)"
proof (induction body arbitrary: refs)
  case Nil
  show ?case by simp
next
  case (Cons s rest)
  have "foldl scan_stmt (scan_stmt refs s) rest x =
          (case last_entry rest x of Some e \<Rightarrow> Some e | None \<Rightarrow> scan_stmt refs s x)"
    by (rule Cons.IH)
  also have "\<dots> = (case last_entry (s # rest) x of Some e \<Rightarrow> Some e | None \<Rightarrow> refs x)"
    by (simp only: scan_stmt_apply last_entry.simps split: option.splits) simp
  finally show ?case by simp
qed

lemma scan_for_refs_last_entry: "scan_for_refs body x = last_entry body x"
  by (simp add: scan_for_refs_def foldl_scan_stmt split: option.splits)




lemma scan_context_append:
  "scan_context n (xs @ ys) =
     (case scan_context n xs of Some v \<Rightarrow> Some v | None \<Rightarrow> scan_context n ys)"
  by (induction n xs rule: scan_context.induct) (auto split: expr.splits)

lemma scan_context_single: "scan_context n [s] = decides n s"
  by (cases "(n, [s])" rule: scan_context.cases) (auto split: expr.splits)

lemma scan_context_rev: "scan_context n (rev body) = last_decision n body"
  by (induction body) (simp_all add: scan_context_append scan_context_single split: option.splits)

lemma last_decision_append:
  "last_decision n (xs @ ys) =
     (case last_decision n ys of Some v \<Rightarrow> Some v | None \<Rightarrow> last_decision n xs)"
  by (induction xs) (auto split: option.splits)

text \<open>
  C7, as amended. When the selected argument is a name that is not in the reference
  table, \<open>get_arg_value\<close> returns the decision of the last statement of the enclosing body
  that decides for the name, and the name itself when no statement does. The statement of
  the call itself is an expression statement and decides nothing, so leaving it out of
  the scan changes nothing.
\<close>

theorem get_arg_value_local_name:
  "(select_arg args kws i k = Some (Name n) \<and> references self n = None \<longrightarrow>
      get_arg_value self args kws i k body =
        VStr (case last_decision n body of Some v \<Rightarrow> v | None \<Rightarrow> n))
   \<and> last_decision n (pre @ Expr seg e # post) = last_decision n (pre @ post)"
  by (auto simp: get_arg_value_def scan_context_rev last_decision_append split: option.splits)

theorem get_arg_value_local_name_witness:
  "select_arg [Name ''x''] [] 0 None = Some (Name ''x'')
   \<and> references (init id Map.empty None []) ''x'' = None
   \<and> get_arg_value (init id Map.empty None []) [Name ''x''] [] 0 None
       [Assign None [Name ''x''] (Constant (CStr ''old'')),
        Assign None [Name ''x''] (Constant (CInt 3)),
        Assign None [Name ''x''] (Call (Name ''compute'') [] []),
        Expr None (Call (Name ''text'') [Name ''x''] [])] = VStr ''3''"
  using get_arg_value_local_name [where args = "[Name ''x'']" and kws = "[]" and i = 0
      and k = None and n = "''x''" and self = "init id Map.empty None []"
      and body = "[Assign None [Name ''x''] (Constant (CStr ''old'')),
        Assign None [Name ''x''] (Constant (CInt 3)),
        Assign None [Name ''x''] (Call (Name ''compute'') [] []),
        Expr None (Call (Name ''text'') [Name ''x''] [])]"]
  by (simp add: select_arg_def init_def load_references_def scan_for_refs_def str_int_def
      str_nat.simps)

theorem get_arg_value_local_name_counterexample:
  "references (init id Map.empty None []) ''x'' = None
   \<and> last_constant_bound ''x''
       [Assign None [Name ''x''] (Constant (CStr ''a'')),
        Assign None [Name ''x''] (Call (Name ''run_policy_gradient'') [] []),
        Expr None (Call (Name ''text'') [Name ''x''] [])] = Some ''a''
   \<and> get_arg_value (init id Map.empty None []) [Name ''x''] [] 0 None
       [Assign None [Name ''x''] (Constant (CStr ''a'')),
        Assign None [Name ''x''] (Call (Name ''run_policy_gradient'') [] []),
        Expr None (Call (Name ''text'') [Name ''x''] [])] = VStr ''x''"
  by (simp add: get_arg_value_def select_arg_def init_def load_references_def scan_for_refs_def)

lemma ref_entry_url_nonempty: "ref_entry s x = Some (t, u) \<Longrightarrow> u \<noteq> []"
  by (cases "(s, x)" rule: ref_entry.cases) (auto split: if_splits option.splits)

lemma last_entry_url_nonempty: "last_entry body x = Some (t, u) \<Longrightarrow> u \<noteq> []"
  by (induction body) (auto split: option.splits dest: ref_entry_url_nonempty)

lemma load_references_url_nonempty:
  "load_references refs_py tr x = Some (t, u) \<Longrightarrow> u \<noteq> []"
  by (auto simp: load_references_def Let_def map_add_def scan_for_refs_last_entry
      split: option.splits dest: last_entry_url_nonempty)

text \<open>
  C4. For a converter whose table was loaded by \<open>load_references\<close>, a \<open>link\<close> call gives
  \<open>[title](url)\<close> when the title and the url resolve to non-empty strings; the stored
  title and url of a reference in \<open>[title](url)\<close> when the url resolves to the empty
  string (as it does when it is absent) and the resolved title is a name of the table,
  and also when the title argument itself is a name of the table; and the bare title
  when the url resolves to the empty string and the title is not in the table.
\<close>

theorem format_content_call_link:
  assumes "references self = load_references refs_py tr"
  shows "(get_arg_value self args kws 0 (Some ''title'') body = VStr t \<and> t \<noteq> [] \<and>
          get_arg_value self args kws 1 (Some ''url'') body = VStr u \<and> u \<noteq> [] \<longrightarrow>
            format_content_call self ''link'' args kws body = ''['' @ t @ '']('' @ u @ '')'')
       \<and> (get_arg_value self args kws 0 (Some ''title'') body = VStr t \<and>
          get_arg_value self args kws 1 (Some ''url'') body = VStr [] \<and>
          references self t = Some (t', u') \<longrightarrow>
            format_content_call self ''link'' args kws body = ''['' @ t' @ '']('' @ u' @ '')'')
       \<and> (get_arg_value self args kws 0 (Some ''title'') body = VRef t' u' \<longrightarrow>
            format_content_call self ''link'' args kws body = ''['' @ t' @ '']('' @ u' @ '')'')
       \<and> (get_arg_value self args kws 0 (Some ''title'') body = VStr t \<and>
          get_arg_value self args kws 1 (Some ''url'') body = VStr [] \<and>
          references self t = None \<longrightarrow>
            format_content_call self ''link'' args kws body = t)
       \<and> (select_arg args kws 1 (Some ''url'') = None \<longrightarrow>
            get_arg_value self args kws 1 (Some ''url'') body = VStr [])"
proof (intro conjI impI)
  assume "get_arg_value self args kws 0 (Some ''title'') body = VStr t \<and> t \<noteq> [] \<and>
          get_arg_value self args kws 1 (Some ''url'') body = VStr u \<and> u \<noteq> []"
  then show "format_content_call self ''link'' args kws body = ''['' @ t @ '']('' @ u @ '')''"
    by (simp add: format_content_call_def)
next
  assume a: "get_arg_value self args kws 0 (Some ''title'') body = VStr t \<and>
          get_arg_value self args kws 1 (Some ''url'') body = VStr [] \<and>
          references self t = Some (t', u')"
  then have "u' \<noteq> []"
    using assms load_references_url_nonempty by metis
  with a show "format_content_call self ''link'' args kws body = ''['' @ t' @ '']('' @ u' @ '')''"
    by (simp add: format_content_call_def)
next
  assume a: "get_arg_value self args kws 0 (Some ''title'') body = VRef t' u'"
  have sel: "\<exists>n. select_arg args kws 0 (Some ''title'') = Some (Name n) \<and> references self n = Some (t', u')"
    using a by (auto simp: get_arg_value_def split: option.splits expr.splits)
  then have "u' \<noteq> []"
    using assms load_references_url_nonempty by metis
  with a show "format_content_call self ''link'' args kws body = ''['' @ t' @ '']('' @ u' @ '')''"
    by (simp add: format_content_call_def)
next
  assume "get_arg_value self args kws 0 (Some ''title'') body = VStr t \<and>
          get_arg_value self args kws 1 (Some ''url'') body = VStr [] \<and>
          references self t = None"
  then show "format_content_call self ''link'' args kws body = t"
    by (simp add: format_content_call_def)
next
  assume "select_arg args kws 1 (Some ''url'') = None"
  then show "get_arg_value self args kws 1 (Some ''url'') body = VStr []"
    by (simp add: get_arg_value_def)
qed

theorem format_content_call_link_witness:
  "format_content_call
     (init id Map.empty None [Assign None [Name ''r''] (Call (Name ''Reference'') []
        [(Some ''title'', Constant (CStr ''Paper'')), (Some ''url'', Constant (CStr ''http://p''))])])
     ''link'' [Constant (CStr ''Site''), Constant (CStr ''http://s'')] [] [] = ''[Site](http://s)''
   \<and> format_content_call
     (init id Map.empty None [Assign None [Name ''r''] (Call (Name ''Reference'') []
        [(Some ''title'', Constant (CStr ''Paper'')), (Some ''url'', Constant (CStr ''http://p''))])])
     ''link'' [Constant (CStr ''r'')] [] [] = ''[Paper](http://p)''
   \<and> format_content_call
     (init id Map.empty None [Assign None [Name ''r''] (Call (Name ''Reference'') []
        [(Some ''title'', Constant (CStr ''Paper'')), (Some ''url'', Constant (CStr ''http://p''))])])
     ''link'' [Name ''r''] [] [] = ''[Paper](http://p)''
   \<and> format_content_call
     (init id Map.empty None [Assign None [Name ''r''] (Call (Name ''Reference'') []
        [(Some ''title'', Constant (CStr ''Paper'')), (Some ''url'', Constant (CStr ''http://p''))])])
     ''link'' [Constant (CStr ''plain'')] [] [] = ''plain''"
proof -
  define tr where "tr = [Assign None [Name ''r''] (Call (Name ''Reference'') []
        [(Some ''title'', Constant (CStr ''Paper'')), (Some ''url'', Constant (CStr ''http://p''))])]"
  define c where "c = init id Map.empty None tr"
  have h: "references c = load_references None tr"
    by (simp add: c_def init_def)
  have r: "references c ''r'' = Some (''Paper'', ''http://p'')"
    and p: "references c ''plain'' = None"
    by (simp_all add: h tr_def load_references_def scan_for_refs_def)
  have "format_content_call c ''link'' [Constant (CStr ''Site''), Constant (CStr ''http://s'')] [] []
          = ''[Site](http://s)''"
    using format_content_call_link [OF h, where args = "[Constant (CStr ''Site''), Constant (CStr ''http://s'')]"
        and kws = "[]" and body = "[]" and t = "''Site''" and u = "''http://s''"]
    by (simp add: get_arg_value_def select_arg_def)
  moreover have "format_content_call c ''link'' [Constant (CStr ''r'')] [] [] = ''[Paper](http://p)''"
    using format_content_call_link [OF h, where args = "[Constant (CStr ''r'')]"
        and kws = "[]" and body = "[]" and t = "''r''" and t' = "''Paper''" and u' = "''http://p''"] r
    by (simp add: get_arg_value_def select_arg_def)
  moreover have "format_content_call c ''link'' [Name ''r''] [] [] = ''[Paper](http://p)''"
    using format_content_call_link [OF h, where args = "[Name ''r'']"
        and kws = "[]" and body = "[]" and t' = "''Paper''" and u' = "''http://p''"] r
    by (simp add: get_arg_value_def select_arg_def)
  moreover have "format_content_call c ''link'' [Constant (CStr ''plain'')] [] [] = ''plain''"
    using format_content_call_link [OF h, where args = "[Constant (CStr ''plain'')]"
        and kws = "[]" and body = "[]" and t = "''plain''"] p
    by (simp add: get_arg_value_def select_arg_def)
  ultimately show ?thesis
    unfolding c_def tr_def by blast
qed

lemma map_of_add_function:
  "map_of (foldl add_function fs tr) = map_of fs ++ map_of (rev (function_defs tr))"
proof (induction tr arbitrary: fs)
  case Nil
  show ?case by simp
next
  case (Cons s rest)
  show ?case
  proof (cases s)
    case (FunctionDef seg name body)
    have "map_of (foldl add_function (AList.update name body fs) rest) =
            map_of (AList.update name body fs) ++ map_of (rev (function_defs rest))"
      by (rule Cons.IH)
    also have "\<dots> = map_of fs ++ (map_of [(name, body)] ++ map_of (rev (function_defs rest)))"
      by (simp add: AList.update_conv' fun_eq_iff map_add_def split: option.splits)
    finally show ?thesis
      using FunctionDef by (simp add: map_of_append)
  qed (simp_all add: Cons.IH)
qed

lemma find_append_keys:
  "List.find P (xs @ ys) = (case List.find P xs of Some x \<Rightarrow> Some x | None \<Rightarrow> List.find P ys)"
  by (induction xs) auto

lemma find_keys_add_function:
  "List.find P (map fst (foldl add_function fs tr)) =
     (case List.find P (map fst fs) of
        Some n \<Rightarrow> Some n
      | None \<Rightarrow> List.find P (map fst (function_defs tr)))"
proof (induction tr arbitrary: fs)
  case Nil
  show ?case by (simp split: option.splits)
next
  case (Cons s rest)
  show ?case
  proof (cases s)
    case (FunctionDef seg name body)
    have keys: "List.find P (map fst (AList.update name body fs)) =
            (case List.find P (map fst fs) of
               Some n \<Rightarrow> Some n
             | None \<Rightarrow> if P name then Some name else None)"
    proof (cases "List.find P (map fst fs)")
      case None
      then have "\<forall>k \<in> set (map fst fs). \<not> P k"
        by (simp add: find_None_iff)
      with None show ?thesis
        by (auto simp: AList.update_keys find_append_keys)
    next
      case (Some n)
      then show ?thesis
        by (simp add: AList.update_keys find_append_keys)
    qed
    have "List.find P (map fst (foldl add_function (AList.update name body fs) rest)) =
            (case List.find P (map fst (AList.update name body fs)) of
               Some n \<Rightarrow> Some n
             | None \<Rightarrow> List.find P (map fst (function_defs rest)))"
      by (rule Cons.IH)
    then show ?thesis
      using FunctionDef by (simp add: keys split: option.splits)
  qed (auto simp: Cons.IH split: option.splits)
qed

lemma functions_init:
  "map_of (functions' (init repr uri refs_py tr)) = function_named tr"
  "List.find P (map fst (functions' (init repr uri refs_py tr))) =
     List.find P (map fst (function_defs tr))"
  by (simp_all add: init_def map_of_add_function find_keys_add_function function_named_def
      fun_eq_iff)

lemma entry_point_init:
  "map_of (functions' (init repr uri refs_py tr)) (entry_point (init repr uri refs_py tr)) =
     entry_function tr"
  by (auto simp: entry_point_def entry_function_def functions_init split: option.splits)

text \<open>
  C5. \<open>convert\<close> walks the body of the entry function of the input file, after the
  top-level code has gone to the code buffer, and flushes; when the file has neither
  \<open>main\<close> nor a function whose name starts with \<open>lecture_\<close>, nothing is walked and the
  cells are the one code cell of the top-level code, or none when there is no such code.
\<close>

theorem convert_entry_function:
  "convert depth (init repr uri refs_py tr) =
     (case entry_function tr of
        Some body \<Rightarrow>
          map_option (\<lambda>self. cells (flush_markdown (flush_code self)))
            (process_body depth ((init repr uri refs_py tr)\<lparr>current_code := top_level_code tr\<rparr>) body)
      | None \<Rightarrow>
          Some (if top_level_code tr = [] then []
                else [\<lparr>cell_type = code,
                       source = [rstrip (str_join [] (top_level_code tr)) @ [CHR 0x0A]]\<rparr>]))"
proof -
  let ?c = "init repr uri refs_py tr"
  let ?c' = "?c\<lparr>current_code := current_code ?c @ top_level_code (tree ?c)\<rparr>"
  have c': "?c' = ?c\<lparr>current_code := top_level_code tr\<rparr>"
    by (simp add: init_def)
  have "entry_point ?c' = entry_point ?c"
    by (simp add: entry_point_def)
  then have e: "map_of (functions' ?c') (entry_point ?c') = entry_function tr"
    using entry_point_init [of repr uri refs_py tr] by simp
  show ?thesis
    unfolding convert_def Let_def e
    by (auto simp: c' flush_markdown_def flush_code_def init_def split: option.splits)
qed

theorem convert_entry_function_witness:
  "entry_function
     [OtherStmt (Some ''import math''),
      FunctionDef (Some ''def helper(): ...'') ''helper'' [OtherStmt (Some ''pass'')],
      FunctionDef (Some ''def lecture_01(): ...'') ''lecture_01''
        [Expr (Some ''text(hi)'') (Call (Name ''text'') [Constant (CStr ''hi'')] [])],
      FunctionDef (Some ''def lecture_02(): ...'') ''lecture_02'' [OtherStmt (Some ''pass'')]]
     = Some [Expr (Some ''text(hi)'') (Call (Name ''text'') [Constant (CStr ''hi'')] [])]
   \<and> convert 1 (init id Map.empty None
     [OtherStmt (Some ''import math''),
      FunctionDef (Some ''def helper(): ...'') ''helper'' [OtherStmt (Some ''pass'')],
      FunctionDef (Some ''def lecture_01(): ...'') ''lecture_01''
        [Expr (Some ''text(hi)'') (Call (Name ''text'') [Constant (CStr ''hi'')] [])],
      FunctionDef (Some ''def lecture_02(): ...'') ''lecture_02'' [OtherStmt (Some ''pass'')]])
     = Some [\<lparr>cell_type = code, source = [''import math'' @ [CHR 0x0A]]\<rparr>,
             \<lparr>cell_type = markdown, source = [''hi'' @ [CHR 0x0A]]\<rparr>]
   \<and> convert 1 (init id Map.empty None [OtherStmt (Some ''import math'')])
     = Some [\<lparr>cell_type = code, source = [''import math'' @ [CHR 0x0A]]\<rparr>]"
  using convert_entry_function [of 1 id Map.empty None
     "[OtherStmt (Some ''import math''),
      FunctionDef (Some ''def helper(): ...'') ''helper'' [OtherStmt (Some ''pass'')],
      FunctionDef (Some ''def lecture_01(): ...'') ''lecture_01''
        [Expr (Some ''text(hi)'') (Call (Name ''text'') [Constant (CStr ''hi'')] [])],
      FunctionDef (Some ''def lecture_02(): ...'') ''lecture_02'' [OtherStmt (Some ''pass'')]]"]
    convert_entry_function [of 1 id Map.empty None "[OtherStmt (Some ''import math'')]"]
  by (simp add: entry_function_def function_named_def startswith_def process_stmt_def
      CONTENT_FUNCTIONS_def format_content_call_def get_arg_value_def select_arg_def
      flush_markdown_def flush_code_def init_def rstrip_def py_isspace_def)

lemma env_of_flush [simp]:
  "env_of (flush_code self) = env_of self"
  "env_of (flush_markdown self) = env_of self"
  "env_of (self\<lparr>current_markdown := m\<rparr>) = env_of self"
  "env_of (self\<lparr>current_code := c\<rparr>) = env_of self"
  by (simp_all add: env_of_def flush_code_def flush_markdown_def)

lemma get_arg_value_env:
  "env_of a = env_of b \<Longrightarrow>
     get_arg_value a args kws i k body = get_arg_value b args kws i k body"
proof -
  assume "env_of a = env_of b"
  then have r: "references a = references b"
    by (simp add: env_of_def)
  show ?thesis
    unfolding get_arg_value_def r by (rule refl)
qed

lemma fmt_env: "env_of a = env_of b \<Longrightarrow> fmt a v = fmt b v"
  by (cases v) (simp_all add: env_of_def)

lemma image_markup_env:
  assumes "env_of a = env_of b"
  shows "image_markup a src w = image_markup b src w"
proof -
  have "fmt a w = fmt b w"
    using assms by (rule fmt_env)
  then show ?thesis
    by (simp add: image_markup_def)
qed

lemma format_content_call_env:
  assumes "env_of a = env_of b"
  shows "format_content_call a f args kws body = format_content_call b f args kws body"
proof -
  have g: "\<And>i k. get_arg_value a args kws i k body = get_arg_value b args kws i k body"
    using assms by (rule get_arg_value_env)
  have r: "references a = references b" and d: "data_uri a = data_uri b"
    using assms by (simp_all add: env_of_def)
  have f: "\<And>v. fmt a v = fmt b v"
    using assms by (rule fmt_env)
  have m: "\<And>src w. image_markup a src w = image_markup b src w"
    using assms by (rule image_markup_env)
  show ?thesis
    unfolding format_content_call_def g r d f m by (rule refl)
qed

lemma flush_code_fields [simp]:
  "cells (flush_code st) = cells st @ code_cells (current_code st)"
  "current_code (flush_code st) = []"
  "current_markdown (flush_code st) = current_markdown st"
  by (simp_all add: flush_code_def code_cells_def)

lemma flush_markdown_fields [simp]:
  "cells (flush_markdown st) = cells st @ markdown_cells (current_markdown st)"
  "current_markdown (flush_markdown st) = []"
  "current_code (flush_markdown st) = current_code st"
  by (simp_all add: flush_markdown_def markdown_cells_def)

lemma flush_empty:
  "current_code st = [] \<Longrightarrow> flush_code st = st"
  "current_markdown st = [] \<Longrightarrow> flush_markdown st = st"
  by (simp_all add: flush_code_def flush_markdown_def)

lemma flush_keep:
  "(flush_code st)\<lparr>current_markdown := current_markdown st\<rparr> = flush_code st"
  "(flush_markdown st)\<lparr>current_code := current_code st\<rparr> = flush_markdown st"
  by (simp_all add: flush_code_def flush_markdown_def)

lemma strip_Nil: "strip [] = []"
  by (simp add: strip_def rstrip_def)

lemma call_content_env:
  assumes "env_of a = env_of b"
  shows "call_content a body e = call_content b body e"
  by (cases e rule: is_content_call.cases) (simp_all add: format_content_call_env [OF assms])

lemma tuple_line_eq:
  "tuple_line st body elts =
     (if list_all is_content_call elts then
        Some (concat (map (\<lambda>e. if call_content st body e \<noteq> []
                                  then [strip (call_content st body e)] else []) elts))
      else None)"
  by (induction st body elts rule: tuple_line.induct) (simp_all add: Let_def)

lemma filter_stripped:
  "filter (\<lambda>s. s \<noteq> [])
     (concat (map (\<lambda>e. if c e \<noteq> [] then [strip (c e)] else []) elts)) =
   filter (\<lambda>s. s \<noteq> []) (map (\<lambda>e. strip (c e)) elts)"
  by (induction elts) (simp_all add: strip_Nil)

lemma append_code_item:
  assumes "\<not> is_content_stmt s" and "\<not> is_content_tuple s"
  shows "append_code st s = apply_item st (item_of st body s)"
  using assms
  by (auto simp: append_code_def item_of_def Let_def flush_keep split: option.splits)

lemma is_content_stmt_shape:
  assumes "is_content_stmt s"
  shows "\<exists>seg f args kws. s = Expr seg (Call (Name f) args kws) \<and> f \<in> set CONTENT_FUNCTIONS"
proof (cases s)
  case (Expr seg e)
  with assms have "is_content_call e" by simp
  then have "\<exists>f args kws. e = Call (Name f) args kws \<and> f \<in> set CONTENT_FUNCTIONS"
    by (cases e rule: is_content_call.cases) simp_all
  with Expr show ?thesis by blast
qed (use assms in simp_all)

lemma is_content_tuple_shape:
  assumes "is_content_tuple s"
  shows "\<exists>seg elts. s = Expr seg (Tuple elts) \<and> list_all is_content_call elts"
  using assms by (cases s rule: is_content_tuple.cases) simp_all

lemma local_call_shape:
  assumes "local_call st s = Some fbody"
  shows "\<exists>seg f args kws. s = Expr seg (Call (Name f) args kws) \<and>
           f \<notin> set CONTENT_FUNCTIONS \<and> map_of (functions' st) f = Some fbody"
  using assms by (cases "(st, s)" rule: local_call.cases) (simp_all split: if_splits)

lemma process_stmt_content:
  assumes "is_content_stmt s"
  shows "process_stmt rec body st s =
           Some ((flush_code st)\<lparr>current_markdown := current_markdown st @
                   filter (\<lambda>c. c \<noteq> []) [content_of st body s]\<rparr>)"
proof -
  from assms obtain seg f args kws where
    s: "s = Expr seg (Call (Name f) args kws)" and f: "f \<in> set CONTENT_FUNCTIONS"
    using is_content_stmt_shape by blast
  have "format_content_call (flush_code st) f args kws body = format_content_call st f args kws body"
    by (rule format_content_call_env) simp
  then show ?thesis
    using f by (simp add: s process_stmt_def Let_def flush_keep)
qed

lemma process_stmt_tuple:
  assumes "is_content_tuple s"
  shows "process_stmt rec body st s =
           Some ((flush_code st)\<lparr>current_markdown := current_markdown st @
                   [tuple_content st body s]\<rparr>)"
proof -
  from assms obtain seg elts where
    s: "s = Expr seg (Tuple elts)" and e: "list_all is_content_call elts"
    using is_content_tuple_shape by blast
  show ?thesis
    using e by (simp add: s process_stmt_def tuple_line_eq Let_def filter_stripped)
qed

lemma process_stmt_local:
  assumes "local_call st s = Some fbody"
  shows "process_stmt rec body st s = rec (flush_markdown (flush_code st)) fbody"
proof -
  from assms obtain seg f args kws where
    s: "s = Expr seg (Call (Name f) args kws)" and f: "f \<notin> set CONTENT_FUNCTIONS"
    and m: "map_of (functions' st) f = Some fbody"
    using local_call_shape by blast
  show ?thesis
    using f m by (simp add: s process_stmt_def)
qed

lemma process_stmt_code:
  assumes "\<not> is_content_stmt s" and "\<not> is_content_tuple s" and "local_call st s = None"
  shows "process_stmt rec body st s = Some (append_code st s)"
proof (cases s)
  case (Expr seg e)
  show ?thesis
  proof (cases e)
    case (Call fn args kws)
    show ?thesis
    proof (cases fn)
      case (Name f)
      then show ?thesis
        using assms Expr Call by (simp add: process_stmt_def)
    qed (simp_all add: Expr Call process_stmt_def)
  next
    case (Tuple elts)
    then show ?thesis
      using assms Expr by (simp add: process_stmt_def tuple_line_eq)
  qed (simp_all add: Expr process_stmt_def)
qed (simp_all add: process_stmt_def)

lemma process_stmt_item:
  assumes "local_call st s = None"
  shows "process_stmt rec body st s = Some (apply_item st (item_of st body s))"
proof -
  consider "is_content_stmt s" | "is_content_tuple s" "\<not> is_content_stmt s"
    | "\<not> is_content_stmt s" "\<not> is_content_tuple s"
    by blast
  then show ?thesis
  proof cases
    case 1
    then show ?thesis
      by (simp add: process_stmt_content item_of_def)
  next
    case 2
    then show ?thesis
      by (simp add: process_stmt_tuple item_of_def)
  next
    case 3
    then show ?thesis
      using assms by (simp add: process_stmt_code append_code_item)
  qed
qed

text \<open>
  C1, as amended. A content statement flushes the code buffer and adds its formatted
  result to the markdown buffer unless the result is empty; its source never goes to the
  code buffer, which is empty afterwards. A content tuple does the same with its line.
  A local call flushes both buffers and walks the body of the called function in place.
  Every other statement flushes the markdown buffer and adds its source text and a
  newline to the code buffer, when it has source text.
\<close>

theorem process_stmt_classification:
  "(is_content_stmt s \<longrightarrow>
      process_stmt rec body self s =
        Some ((flush_code self)\<lparr>current_markdown := current_markdown self @
                filter (\<lambda>c. c \<noteq> []) [content_of self body s]\<rparr>))
   \<and> (is_content_tuple s \<longrightarrow>
      process_stmt rec body self s =
        Some ((flush_code self)\<lparr>current_markdown := current_markdown self @
                [tuple_content self body s]\<rparr>))
   \<and> current_code ((flush_code self)\<lparr>current_markdown := m\<rparr>) = []
   \<and> (local_call self s = Some fbody \<longrightarrow>
      process_stmt rec body self s = rec (flush_markdown (flush_code self)) fbody)
   \<and> (\<not> is_content_stmt s \<and> \<not> is_content_tuple s \<and> local_call self s = None \<longrightarrow>
      process_stmt rec body self s =
        Some ((flush_markdown self)\<lparr>current_code := current_code self @
                (case get_source_segment s of
                   None \<Rightarrow> []
                 | Some src \<Rightarrow> if src \<noteq> [] then [src @ [CHR 0x0A]] else [])\<rparr>))"
proof (intro conjI impI)
  assume "is_content_stmt s"
  then show "process_stmt rec body self s =
        Some ((flush_code self)\<lparr>current_markdown := current_markdown self @
                filter (\<lambda>c. c \<noteq> []) [content_of self body s]\<rparr>)"
    by (rule process_stmt_content)
next
  assume "is_content_tuple s"
  then show "process_stmt rec body self s =
        Some ((flush_code self)\<lparr>current_markdown := current_markdown self @
                [tuple_content self body s]\<rparr>)"
    by (rule process_stmt_tuple)
next
  show "current_code ((flush_code self)\<lparr>current_markdown := m\<rparr>) = []"
    by simp
next
  assume "local_call self s = Some fbody"
  then show "process_stmt rec body self s = rec (flush_markdown (flush_code self)) fbody"
    by (rule process_stmt_local)
next
  assume a: "\<not> is_content_stmt s \<and> \<not> is_content_tuple s \<and> local_call self s = None"
  then have "process_stmt rec body self s = Some (append_code self s)"
    by (simp add: process_stmt_code)
  also have "append_code self s =
      (flush_markdown self)\<lparr>current_code := current_code self @
                (case get_source_segment s of
                   None \<Rightarrow> []
                 | Some src \<Rightarrow> if src \<noteq> [] then [src @ [CHR 0x0A]] else [])\<rparr>"
    by (simp add: append_code_def Let_def flush_keep split: option.splits)
  finally show "process_stmt rec body self s =
        Some ((flush_markdown self)\<lparr>current_code := current_code self @
                (case get_source_segment s of
                   None \<Rightarrow> []
                 | Some src \<Rightarrow> if src \<noteq> [] then [src @ [CHR 0x0A]] else [])\<rparr>)" .
qed

theorem process_stmt_classification_witness:
  "map_option current_markdown
     (process_stmt (process_body (Suc 0)) []
        (init id Map.empty None
           [FunctionDef None ''helper'' [Expr None (Call (Name ''text'') [Constant (CStr ''hi'')] [])]])
        (Expr (Some ''text(intro)'') (Call (Name ''text'') [Constant (CStr ''intro'')] [])))
     = Some [''intro'']
   \<and> map_option current_markdown
     (process_stmt (process_body (Suc 0)) []
        (init id Map.empty None
           [FunctionDef None ''helper'' [Expr None (Call (Name ''text'') [Constant (CStr ''hi'')] [])]])
        (Expr (Some ''text(a), text(b)'')
           (Tuple [Call (Name ''text'') [Constant (CStr ''a'')] [],
                   Call (Name ''text'') [Constant (CStr '' b '')] []])))
     = Some [''a b'']
   \<and> map_option current_markdown
     (process_stmt (process_body (Suc 0)) []
        (init id Map.empty None
           [FunctionDef None ''helper'' [Expr None (Call (Name ''text'') [Constant (CStr ''hi'')] [])]])
        (Expr (Some ''helper()'') (Call (Name ''helper'') [] [])))
     = Some [''hi'']
   \<and> map_option current_code
     (process_stmt (process_body (Suc 0)) []
        (init id Map.empty None
           [FunctionDef None ''helper'' [Expr None (Call (Name ''text'') [Constant (CStr ''hi'')] [])]])
        (Assign (Some ''x = 1'') [Name ''x''] (Constant (CInt 1))))
     = Some [''x = 1'' @ [CHR 0x0A]]"
proof -
  define c where "c = init id Map.empty None
           [FunctionDef None ''helper'' [Expr None (Call (Name ''text'') [Constant (CStr ''hi'')] [])]]"
  have f: "functions' c =
      [(''helper'', [Expr None (Call (Name ''text'') [Constant (CStr ''hi'')] [])])]"
    and b: "current_markdown c = []" "current_code c = []"
    by (simp_all add: c_def init_def)
  have "map_option current_markdown
     (process_stmt (process_body (Suc 0)) [] c
        (Expr (Some ''text(intro)'') (Call (Name ''text'') [Constant (CStr ''intro'')] [])))
     = Some [''intro'']"
    using process_stmt_classification [where self = c and body = "[]"
        and rec = "process_body (Suc 0)"
        and s = "Expr (Some ''text(intro)'') (Call (Name ''text'') [Constant (CStr ''intro'')] [])"]
    by (simp add: CONTENT_FUNCTIONS_def b format_content_call_def get_arg_value_def select_arg_def)
  moreover have "map_option current_markdown
     (process_stmt (process_body (Suc 0)) [] c
        (Expr (Some ''text(a), text(b)'')
           (Tuple [Call (Name ''text'') [Constant (CStr ''a'')] [],
                   Call (Name ''text'') [Constant (CStr '' b '')] []])))
     = Some [''a b'']"
    using process_stmt_classification [where self = c and body = "[]"
        and rec = "process_body (Suc 0)"
        and s = "Expr (Some ''text(a), text(b)'')
           (Tuple [Call (Name ''text'') [Constant (CStr ''a'')] [],
                   Call (Name ''text'') [Constant (CStr '' b '')] []])"]
    by (simp add: CONTENT_FUNCTIONS_def b format_content_call_def get_arg_value_def select_arg_def
        strip_def rstrip_def py_isspace_def)
  moreover have "map_option current_markdown
     (process_stmt (process_body (Suc 0)) [] c
        (Expr (Some ''helper()'') (Call (Name ''helper'') [] [])))
     = Some [''hi'']"
    using process_stmt_classification [where self = c and body = "[]"
        and rec = "process_body (Suc 0)"
        and s = "Expr (Some ''helper()'') (Call (Name ''helper'') [] [])"
        and fbody = "[Expr None (Call (Name ''text'') [Constant (CStr ''hi'')] [])]"]
    by (simp add: CONTENT_FUNCTIONS_def f b process_stmt_content flush_empty
        format_content_call_def get_arg_value_def select_arg_def)
  moreover have "map_option current_code
     (process_stmt (process_body (Suc 0)) [] c
        (Assign (Some ''x = 1'') [Name ''x''] (Constant (CInt 1))))
     = Some [''x = 1'' @ [CHR 0x0A]]"
    using process_stmt_classification [where self = c and body = "[]"
        and rec = "process_body (Suc 0)"
        and s = "Assign (Some ''x = 1'') [Name ''x''] (Constant (CInt 1))"]
    by (simp add: b)
  ultimately show ?thesis
    unfolding c_def by blast
qed

theorem process_stmt_classification_counterexample:
  "\<not> is_content_stmt (Expr (Some ''helper()'') (Call (Name ''helper'') [] []))
   \<and> map_option (\<lambda>self. (cells self, current_markdown self, current_code self))
     (process_body (Suc (Suc 0))
        (init id Map.empty None
           [FunctionDef None ''helper'' [Expr None (Call (Name ''text'') [Constant (CStr ''hi'')] [])]])
        [Expr (Some ''helper()'') (Call (Name ''helper'') [] [])])
     = Some ([], [''hi''], [])
   \<and> is_content_stmt (Expr (Some ''text()'') (Call (Name ''text'') [] []))
   \<and> map_option (\<lambda>self. (cells self, current_markdown self, current_code self))
     (process_body (Suc 0)
        (init id Map.empty None [])
        [Expr (Some ''text()'') (Call (Name ''text'') [] [])])
     = Some ([], [], [])"
  by (simp add: CONTENT_FUNCTIONS_def process_stmt_def init_def flush_code_def flush_markdown_def
      format_content_call_def get_arg_value_def select_arg_def)

lemma item_of_env:
  assumes "env_of a = env_of b"
  shows "item_of a body s = item_of b body s"
proof -
  have c: "\<And>e. call_content a body e = call_content b body e"
    using assms by (rule call_content_env)
  have "content_of a body s = content_of b body s"
    by (cases s) (simp_all add: c)
  moreover have "tuple_content a body s = tuple_content b body s"
    by (cases "(a, body, s)" rule: tuple_content.cases) (simp_all add: c)
  ultimately show ?thesis
    by (simp add: item_of_def)
qed

lemma local_call_env:
  assumes "env_of a = env_of b"
  shows "local_call a s = local_call b s"
proof -
  have "functions' a = functions' b"
    using assms by (simp add: env_of_def)
  then show ?thesis
    by (cases "(a, s)" rule: local_call.cases) simp_all
qed

lemma env_of_apply_item: "env_of (apply_item st x) = env_of st"
  by (cases x) simp_all

lemma for_each_items:
  assumes "\<forall>s \<in> set xs. local_call self s = None" and "env_of st = env_of self"
  shows "for_each (process_stmt rec body) st xs =
           Some (foldl apply_item st (map (item_of self body) xs))"
  using assms
proof (induction xs arbitrary: st)
  case Nil
  show ?case by simp
next
  case (Cons s rest)
  have "local_call st s = None"
    using Cons.prems local_call_env [of st self s] by simp
  then have step: "process_stmt rec body st s = Some (apply_item st (item_of self body s))"
    using Cons.prems(2) item_of_env [of st self body s] by (simp add: process_stmt_item)
  have "env_of (apply_item st (item_of self body s)) = env_of self"
    using Cons.prems(2) by (simp add: env_of_apply_item)
  then have "for_each (process_stmt rec body) (apply_item st (item_of self body s)) rest =
      Some (foldl apply_item (apply_item st (item_of self body s)) (map (item_of self body) rest))"
    using Cons.prems(1) by (intro Cons.IH) simp_all
  then show ?case
    by (simp add: step)
qed

lemma prose_run:
  assumes "\<forall>x \<in> set xs. is_prose x" and "current_code st = []"
  shows "foldl apply_item st xs =
           st\<lparr>current_markdown := current_markdown st @ concat (map entries xs)\<rparr>"
  using assms
proof (induction xs arbitrary: st)
  case Nil
  show ?case by simp
next
  case (Cons x rest)
  then obtain es where x: "x = Prose es"
    by (cases x) simp_all
  have one: "apply_item st x = st\<lparr>current_markdown := current_markdown st @ es\<rparr>"
    using Cons.prems(2) by (simp add: x flush_empty)
  have "foldl apply_item (apply_item st x) rest =
      (apply_item st x)\<lparr>current_markdown :=
         current_markdown (apply_item st x) @ concat (map entries rest)\<rparr>"
    using Cons.prems by (intro Cons.IH) (simp_all add: one)
  then show ?case
    using Cons.prems(2) by (simp add: x flush_empty)
qed

lemma code_run:
  assumes "\<forall>x \<in> set xs. \<not> is_prose x" and "current_markdown st = []"
  shows "foldl apply_item st xs =
           st\<lparr>current_code := current_code st @ concat (map entries xs)\<rparr>"
  using assms
proof (induction xs arbitrary: st)
  case Nil
  show ?case by simp
next
  case (Cons x rest)
  then obtain es where x: "x = Code es"
    by (cases x) simp_all
  have one: "apply_item st x = st\<lparr>current_code := current_code st @ es\<rparr>"
    using Cons.prems(2) by (simp add: x flush_empty)
  have "foldl apply_item (apply_item st x) rest =
      (apply_item st x)\<lparr>current_code :=
         current_code (apply_item st x) @ concat (map entries rest)\<rparr>"
    using Cons.prems by (intro Cons.IH) (simp_all add: one)
  then show ?case
    using Cons.prems(2) by (simp add: x flush_empty)
qed

lemma flush_twice [simp]:
  "flush_markdown (flush_markdown st) = flush_markdown st"
  "flush_code (flush_code st) = flush_code st"
  by (simp_all add: flush_empty)

lemma shift_markdown:
  assumes "xs = [] \<or> \<not> is_prose (hd xs)" and "current_code st = []"
  shows "emitted (foldl apply_item st xs) = emitted (foldl apply_item (flush_markdown st) xs)"
proof (cases xs)
  case Nil
  then show ?thesis
    using assms(2) by (simp add: emitted_def flush_empty)
next
  case (Cons x rest)
  with assms(1) obtain es where x: "x = Code es"
    by (cases x) simp_all
  have "apply_item st x = apply_item (flush_markdown st) x"
    by (simp add: x)
  then show ?thesis
    by (simp add: Cons)
qed

lemma shift_code:
  assumes "xs = [] \<or> is_prose (hd xs)"
  shows "emitted (foldl apply_item st xs) = emitted (foldl apply_item (flush_code st) xs)"
proof (cases xs)
  case Nil
  then show ?thesis
    by (simp add: emitted_def)
next
  case (Cons x rest)
  with assms(1) obtain es where x: "x = Prose es"
    by (cases x) simp_all
  have "apply_item st x = apply_item (flush_code st) x"
    by (simp add: x)
  then show ?thesis
    by (simp add: Cons)
qed

lemma after_run:
  "dropWhile P xs = [] \<or> \<not> P (hd (dropWhile P xs))"
  using hd_dropWhile [of P xs] by blast

lemma emitted_runs:
  assumes "current_markdown st = []" and "current_code st = []"
  shows "emitted (foldl apply_item st xs) = cells st @ concat (map cells_of_run (runs xs))"
  using assms
proof (induction xs arbitrary: st rule: runs.induct)
  case 1
  then show ?case
    by (simp add: emitted_def flush_empty)
next
  case (2 x xs)
  let ?P = "\<lambda>y. is_prose y = is_prose x"
  let ?run = "x # takeWhile ?P xs"
  let ?rest = "dropWhile ?P xs"
  have split: "foldl apply_item st (x # xs) = foldl apply_item (foldl apply_item st ?run) ?rest"
    by (metis append_Cons foldl_append takeWhile_dropWhile_id)
  have kind: "\<forall>y \<in> set ?run. is_prose y = is_prose x"
    by (auto dest: set_takeWhileD)
  have next_kind: "?rest = [] \<or> is_prose (hd ?rest) \<noteq> is_prose x"
    using after_run [of ?P xs] by blast
  show ?case
  proof (cases "is_prose x")
    case True
    let ?st1 = "st\<lparr>current_markdown := current_markdown st @ concat (map entries ?run)\<rparr>"
    have "foldl apply_item st ?run = ?st1"
      using kind True "2.prems"(2) by (intro prose_run) simp_all
    then have "emitted (foldl apply_item st (x # xs)) = emitted (foldl apply_item ?st1 ?rest)"
      by (simp only: split)
    also have "\<dots> = emitted (foldl apply_item (flush_markdown ?st1) ?rest)"
      using next_kind True "2.prems"(2) by (intro shift_markdown) simp_all
    also have "\<dots> = cells (flush_markdown ?st1) @ concat (map cells_of_run (runs ?rest))"
      using "2.prems"(2) by (intro "2.IH") simp_all
    also have "\<dots> = cells st @ concat (map cells_of_run (runs (x # xs)))"
      using True "2.prems"(1) by (simp add: cells_of_run_def)
    finally show ?thesis .
  next
    case False
    let ?st1 = "st\<lparr>current_code := current_code st @ concat (map entries ?run)\<rparr>"
    have "foldl apply_item st ?run = ?st1"
      using kind False "2.prems"(1) by (intro code_run) simp_all
    then have "emitted (foldl apply_item st (x # xs)) = emitted (foldl apply_item ?st1 ?rest)"
      by (simp only: split)
    also have "\<dots> = emitted (foldl apply_item (flush_code ?st1) ?rest)"
      using next_kind False by (intro shift_code) simp_all
    also have "\<dots> = cells (flush_code ?st1) @ concat (map cells_of_run (runs ?rest))"
      using "2.prems"(1) by (intro "2.IH") simp_all
    also have "\<dots> = cells st @ concat (map cells_of_run (runs (x # xs)))"
      using False "2.prems"(2) by (simp add: cells_of_run_def)
    finally show ?thesis .
  qed
qed

text \<open>
  C2, as amended. For a body with no local call, walked from an empty markdown buffer
  and flushed as \<open>convert\<close> does, the cells emitted are, in order, those of the maximal
  runs of consecutive statements of one kind, what the code buffer holds when the walk
  starts (the top-level code, in \<open>convert\<close>) counting as a first code statement. A run of
  prose statements (content statements and content tuples) gives one markdown cell,
  made of the entries of the run joined by two newlines and ended by a newline, and no
  cell when the run has no entry, as when every result is empty. A run of other
  statements gives one code cell, made of their source texts, each followed by a
  newline, concatenated, right-stripped and ended by a newline, and no cell when none
  has source text.
\<close>

theorem process_body_runs:
  assumes "\<forall>s \<in> set body. local_call self s = None"
    and "current_markdown self = []"
  shows "map_option emitted (process_body (Suc d) self body) =
           Some (cells self @
                 concat (map cells_of_run
                   (runs (Code (current_code self) # map (item_of self body) body))))"
proof -
  let ?st0 = "self\<lparr>current_code := []\<rparr>"
  let ?items = "map (item_of self body) body"
  have start: "apply_item ?st0 (Code (current_code self)) = self"
    using assms(2) by (simp add: flush_empty)
  have "process_body (Suc d) self body = Some (foldl apply_item self ?items)"
    using assms(1) by (simp add: for_each_items)
  also have "foldl apply_item self ?items = foldl apply_item ?st0 (Code (current_code self) # ?items)"
    by (simp only: foldl_Cons start)
  finally have "map_option emitted (process_body (Suc d) self body) =
      Some (emitted (foldl apply_item ?st0 (Code (current_code self) # ?items)))"
    by simp
  also have "emitted (foldl apply_item ?st0 (Code (current_code self) # ?items)) =
      cells ?st0 @ concat (map cells_of_run (runs (Code (current_code self) # ?items)))"
    using assms(2) by (intro emitted_runs) simp_all
  finally show ?thesis
    by simp
qed

theorem process_body_runs_witness:
  "map_option emitted
     (process_body (Suc 0)
        ((init id Map.empty None [])\<lparr>current_code := [''import math'' @ [CHR 0x0A]]\<rparr>)
        [Assign (Some ''n = 0'') [Name ''n''] (Constant (CInt 0)),
         Expr (Some ''text(a)'') (Call (Name ''text'') [Constant (CStr ''a'')] []),
         Expr (Some ''text()'') (Call (Name ''text'') [] []),
         Expr (Some ''text(b)'') (Call (Name ''text'') [Constant (CStr ''b'')] []),
         Assign (Some ''x = 1'') [Name ''x''] (Constant (CInt 1)),
         Assign (Some ''y = 2'') [Name ''y''] (Constant (CInt 2)),
         Expr (Some ''text(c)'') (Call (Name ''text'') [Constant (CStr ''c'')] [])])
   = Some [\<lparr>cell_type = code, source = [''import math'' @ [CHR 0x0A] @ ''n = 0'' @ [CHR 0x0A]]\<rparr>,
           \<lparr>cell_type = markdown, source = [''a'' @ [CHR 0x0A, CHR 0x0A] @ ''b'' @ [CHR 0x0A]]\<rparr>,
           \<lparr>cell_type = code, source = [''x = 1'' @ [CHR 0x0A] @ ''y = 2'' @ [CHR 0x0A]]\<rparr>,
           \<lparr>cell_type = markdown, source = [''c'' @ [CHR 0x0A]]\<rparr>]"
proof -
  define c where "c = (init id Map.empty None [])\<lparr>current_code := [''import math'' @ [CHR 0x0A]]\<rparr>"
  have b: "current_markdown c = []" "current_code c = [''import math'' @ [CHR 0x0A]]"
      "cells c = []" "functions' c = []"
    by (simp_all add: c_def init_def)
  have r: "references c = Map.empty"
    by (simp add: c_def init_def load_references_def scan_for_refs_def)
  show ?thesis
    unfolding c_def [symmetric]
    using process_body_runs [where self = c and d = 0 and body =
        "[Assign (Some ''n = 0'') [Name ''n''] (Constant (CInt 0)),
         Expr (Some ''text(a)'') (Call (Name ''text'') [Constant (CStr ''a'')] []),
         Expr (Some ''text()'') (Call (Name ''text'') [] []),
         Expr (Some ''text(b)'') (Call (Name ''text'') [Constant (CStr ''b'')] []),
         Assign (Some ''x = 1'') [Name ''x''] (Constant (CInt 1)),
         Assign (Some ''y = 2'') [Name ''y''] (Constant (CInt 2)),
         Expr (Some ''text(c)'') (Call (Name ''text'') [Constant (CStr ''c'')] [])]"]
    by (simp add: b r CONTENT_FUNCTIONS_def item_of_def cells_of_run_def markdown_cells_def
        code_cells_def format_content_call_def get_arg_value_def select_arg_def rstrip_def
        py_isspace_def)
qed

theorem process_body_runs_counterexample:
  "convert (Suc 0) (init id Map.empty None
      [FunctionDef (Some ''def main(): text()'') ''main''
         [Expr (Some ''text()'') (Call (Name ''text'') [] [])]]) = Some []
   \<and> convert (Suc (Suc 0)) (init id Map.empty None
      [FunctionDef (Some ''def helper(): text(hi)'') ''helper''
         [Expr (Some ''text(hi)'') (Call (Name ''text'') [Constant (CStr ''hi'')] [])],
       FunctionDef (Some ''def main(): helper()'') ''main''
         [Expr (Some ''helper()'') (Call (Name ''helper'') [] [])]])
     = Some [\<lparr>cell_type = markdown, source = [''hi'' @ [CHR 0x0A]]\<rparr>]"
  by (simp add: convert_def entry_point_def init_def CONTENT_FUNCTIONS_def process_stmt_def
      flush_code_def flush_markdown_def format_content_call_def get_arg_value_def select_arg_def)

end
